theory Spec2Isabelle
  imports Main
begin

section \<open>The build orchestrator \<^verbatim>\<open>examples/menu/catalyst.py\<close>\<close>

text \<open>
  The script installs a SQLite development package, compiles \<^verbatim>\<open>program.c\<close> and runs
  the binary. Everything it does is an effect on the outside world: it asks
  \<^verbatim>\<open>platform.system()\<close> for the OS identifier, prints lines, spawns subprocesses
  through the shell and may leave through \<^verbatim>\<open>sys.exit(1)\<close>. The embedding threads
  a world through the functions of the script; every effect is appended to the
  world's list of events, in the order in which the script performs it.
\<close>

subsection \<open>The world\<close>

datatype event =
  Platform string      \<comment> \<open>a call of \<^verbatim>\<open>platform.system()\<close>, with the identifier it returned\<close>
| Print string         \<comment> \<open>a line written by \<^verbatim>\<open>print\<close>\<close>
| Subprocess string    \<comment> \<open>a command line given to \<^verbatim>\<open>subprocess.run(..., shell=True)\<close>\<close>

record world =
  host_system :: string          \<comment> \<open>what \<^verbatim>\<open>platform.system()\<close> answers on this host\<close>
  returncodes :: "nat \<Rightarrow> int"    \<comment> \<open>the exit status of the k-th subprocess spawned\<close>
  events :: "event list"

text \<open>Leaving a function: by returning, or by the \<^verbatim>\<open>SystemExit\<close> that \<^verbatim>\<open>sys.exit\<close> raises.\<close>

datatype outcome = Returned | SystemExit int

fun commands :: "event list \<Rightarrow> string list" where
  "commands [] = []"
| "commands (Subprocess c # es) = c # commands es"
| "commands (e # es) = commands es"

fun printed :: "event list \<Rightarrow> string list" where
  "printed [] = []"
| "printed (Print l # es) = l # printed es"
| "printed (e # es) = printed es"


definition platform_system :: "world \<Rightarrow> string \<times> world" where
  "platform_system w =
     (host_system w, w\<lparr>events := events w @ [Platform (host_system w)]\<rparr>)"

definition py_print :: "string \<Rightarrow> world \<Rightarrow> world" where
  "py_print line w = w\<lparr>events := events w @ [Print line]\<rparr>"

text \<open>
  \<^verbatim>\<open>subprocess.run(full_cmd, shell=True)\<close> blocks until the subprocess has exited
  and returns its exit status: the status of the k-th subprocess of the run, where k
  subprocesses were spawned before it.
\<close>

definition subprocess_run :: "string \<Rightarrow> world \<Rightarrow> int \<times> world" where
  "subprocess_run full_cmd w =
     (returncodes w (length (commands (events w))),
      w\<lparr>events := events w @ [Subprocess full_cmd]\<rparr>)"

subsection \<open>Module level\<close>

text \<open>
  The three module-level assignments, executed once when the script starts:
  \<^verbatim>\<open>c_program = "program.c"\<close>,
  \<^verbatim>\<open>output_exe = "program.exe" if platform.system() == "Windows" else "program"\<close>,
  \<^verbatim>\<open>msys2_path = r"F:\msys2\ucrt64.exe"\<close> (a raw string: the backslashes are
  characters of the path, written \<open>CHR 0x5C\<close> here).
\<close>

record globals =
  c_program :: string
  output_exe :: string
  msys2_path :: string

definition module_init :: "world \<Rightarrow> globals \<times> world" where
  "module_init w =
     (let (system, w1) = platform_system w
      in (\<lparr>c_program = ''program.c'',
           output_exe = (if system = ''Windows'' then ''program.exe'' else ''program''),
           msys2_path = ''F:'' @ [CHR 0x5C] @ ''msys2'' @ [CHR 0x5C] @ ''ucrt64.exe''\<rparr>,
          w1))"

subsection \<open>The functions of the script\<close>

text \<open>
  The local \<^verbatim>\<open>full_cmd\<close> of \<^verbatim>\<open>run_command\<close>:
  \<^verbatim>\<open>f'{msys2_path} -c "{cmd}"'\<close> when \<^verbatim>\<open>use_msys\<close> is set, \<^verbatim>\<open>cmd\<close> otherwise
  (\<open>CHR 0x22\<close> is the double quote).
\<close>

definition full_cmd :: "globals \<Rightarrow> string \<Rightarrow> bool \<Rightarrow> string" where
  "full_cmd g cmd use_msys =
     (if use_msys then msys2_path g @ '' -c '' @ [CHR 0x22] @ cmd @ [CHR 0x22] else cmd)"

definition run_command :: "globals \<Rightarrow> string \<Rightarrow> bool \<Rightarrow> world \<Rightarrow> outcome \<times> world" where
  "run_command g cmd use_msys w =
     (let w1 = py_print (''Running: '' @ full_cmd g cmd use_msys) w;
          (returncode, w2) = subprocess_run (full_cmd g cmd use_msys) w1
      in if returncode \<noteq> 0
         then (SystemExit 1, py_print (''Command failed: '' @ cmd) w2)
         else (Returned, w2))"

definition install_sqlite :: "globals \<Rightarrow> world \<Rightarrow> outcome \<times> world" where
  "install_sqlite g w =
     (let (system, w1) = platform_system w
      in if system = ''Windows'' then
           run_command g ''pacman -S --needed mingw-w64-ucrt-x86_64-sqlite3'' True
             (py_print ''Detected Windows, using MSYS2 UCRT64'' w1)
         else if system = ''Linux'' then
           run_command g ''sudo apt update && sudo apt install -y libsqlite3-dev'' False
             (py_print ''Detected Linux'' w1)
         else if system = ''Darwin'' then
           run_command g ''brew install sqlite'' False
             (py_print ''Detected macOS'' w1)
         else (SystemExit 1, py_print (''Unsupported OS: '' @ system) w1))"

definition build_program :: "globals \<Rightarrow> world \<Rightarrow> outcome \<times> world" where
  "build_program g w =
     (let (system, w1) = platform_system w
      in if system = ''Windows'' then
           run_command g
             (''gcc '' @ c_program g @ '' -o '' @ output_exe g @ '' -lsqlite3'') True w1
         else
           run_command g
             (''gcc '' @ c_program g @ '' -o '' @ output_exe g @ '' -lsqlite3'') False w1)"

definition launch_program :: "globals \<Rightarrow> world \<Rightarrow> outcome \<times> world" where
  "launch_program g w =
     (let w1 = py_print (''Launching '' @ output_exe g @ ''...'') w;
          (system, w2) = platform_system w1
      in if system = ''Windows'' then run_command g (''./'' @ output_exe g) True w2
         else run_command g (''./'' @ output_exe g) False w2)"

subsection \<open>The script as a whole\<close>

text \<open>
  Statements run in sequence; a \<^verbatim>\<open>SystemExit\<close> raised by one of them leaves all
  later ones unexecuted.
\<close>

definition and_then ::
  "outcome \<times> world \<Rightarrow> (world \<Rightarrow> outcome \<times> world) \<Rightarrow> outcome \<times> world" where
  "and_then r f = (case r of (Returned, w) \<Rightarrow> f w | (SystemExit n, w) \<Rightarrow> (SystemExit n, w))"

text \<open>
  The module-level assignments, then the three calls under
  \<^verbatim>\<open>if __name__ == "__main__":\<close>.
\<close>

definition main :: "world \<Rightarrow> outcome \<times> world" where
  "main w =
     (let (g, w0) = module_init w
      in and_then (and_then (install_sqlite g w0) (build_program g)) (launch_program g))"

text \<open>
  The exit status of the interpreter: 0 when the script runs to its end, the argument of
  \<^verbatim>\<open>sys.exit\<close> otherwise.
\<close>

fun exit_status :: "outcome \<Rightarrow> int" where
  "exit_status Returned = 0"
| "exit_status (SystemExit n) = n"

text \<open>A run on a host with identifier \<open>s\<close> whose k-th subprocess exits with \<open>rc k\<close>.\<close>

definition initial_world :: "string \<Rightarrow> (nat \<Rightarrow> int) \<Rightarrow> world" where
  "initial_world s rc = \<lparr>host_system = s, returncodes = rc, events = []\<rparr>"

definition run :: "string \<Rightarrow> (nat \<Rightarrow> int) \<Rightarrow> outcome \<times> world" where
  "run s rc = main (initial_world s rc)"

text \<open>
  A finite list of exit statuses as an oracle for concrete runs: the k-th subprocess
  exits with the k-th status of the list, and with 0 beyond its end.
\<close>

definition exit_codes :: "int list \<Rightarrow> nat \<Rightarrow> int" where
  "exit_codes xs k = (if k < length xs then xs ! k else 0)"

section \<open>Closed forms of the functions\<close>

lemma commands_append: "commands (xs @ ys) = commands xs @ commands ys"
  by (induction xs rule: commands.induct) auto

lemma printed_append: "printed (xs @ ys) = printed xs @ printed ys"
  by (induction xs rule: printed.induct) auto


text \<open>
  \<^verbatim>\<open>run_command\<close> prints the line \<^verbatim>\<open>Running:\<close>, spawns the subprocess once and, when
  its status is not 0, prints \<^verbatim>\<open>Command failed:\<close> and exits.
\<close>

lemma run_command_eq:
  "run_command g cmd m w =
     (if returncodes w (length (commands (events w))) \<noteq> 0
      then (SystemExit 1, w\<lparr>events := events w @
              [Print (''Running: '' @ full_cmd g cmd m), Subprocess (full_cmd g cmd m),
               Print (''Command failed: '' @ cmd)]\<rparr>)
      else (Returned, w\<lparr>events := events w @
              [Print (''Running: '' @ full_cmd g cmd m), Subprocess (full_cmd g cmd m)]\<rparr>))"
  by (simp add: run_command_def subprocess_run_def py_print_def commands_append)

lemma run_command_commands:
  "commands (events (snd (run_command g cmd m w))) = commands (events w) @ [full_cmd g cmd m]"
  by (simp add: run_command_eq commands_append)

lemma install_sqlite_eq:
  "install_sqlite g w =
     (if host_system w = ''Windows'' then
        run_command g ''pacman -S --needed mingw-w64-ucrt-x86_64-sqlite3'' True
          (w\<lparr>events := events w @
             [Platform (host_system w), Print ''Detected Windows, using MSYS2 UCRT64'']\<rparr>)
      else if host_system w = ''Linux'' then
        run_command g ''sudo apt update && sudo apt install -y libsqlite3-dev'' False
          (w\<lparr>events := events w @ [Platform (host_system w), Print ''Detected Linux'']\<rparr>)
      else if host_system w = ''Darwin'' then
        run_command g ''brew install sqlite'' False
          (w\<lparr>events := events w @ [Platform (host_system w), Print ''Detected macOS'']\<rparr>)
      else (SystemExit 1, w\<lparr>events := events w @
              [Platform (host_system w), Print (''Unsupported OS: '' @ host_system w)]\<rparr>))"
  by (simp add: install_sqlite_def platform_system_def py_print_def)

lemma build_program_eq:
  "build_program g w =
     run_command g (''gcc '' @ c_program g @ '' -o '' @ output_exe g @ '' -lsqlite3'')
       (host_system w = ''Windows'') (w\<lparr>events := events w @ [Platform (host_system w)]\<rparr>)"
  by (simp add: build_program_def platform_system_def)

lemma launch_program_eq:
  "launch_program g w =
     run_command g (''./'' @ output_exe g) (host_system w = ''Windows'')
       (w\<lparr>events := events w @
          [Print (''Launching '' @ output_exe g @ ''...''), Platform (host_system w)]\<rparr>)"
  by (simp add: launch_program_def platform_system_def py_print_def Let_def)

lemmas script_defs = run_def main_def initial_world_def module_init_def install_sqlite_eq
  build_program_eq launch_program_eq and_then_def platform_system_def
  run_command_eq commands_append

text \<open>The four branches of \<^verbatim>\<open>install_sqlite\<close>, as a case distinction on the identifier.\<close>

lemma os_cases:
  assumes "s = ''Windows'' \<Longrightarrow> P" "s = ''Linux'' \<Longrightarrow> P" "s = ''Darwin'' \<Longrightarrow> P"
    "\<lbrakk>s \<noteq> ''Windows''; s \<noteq> ''Linux''; s \<noteq> ''Darwin''\<rbrakk> \<Longrightarrow> P"
  shows P
  using assms by blast

section \<open>The claims\<close>

subsection \<open>Abort on the first failing command\<close>

text \<open>
  Claim C1. The commands of a run are spawned in the order install, build, launch, so the
  k-th command of the run is the command of step k. If that command exits with a status
  other than 0, it is the last command the run spawns (no later step executes its command)
  and the process ends with exit status 1.
\<close>

theorem failing_step_aborts_run:
  "k < length (commands (events (snd (run s rc)))) \<Longrightarrow> rc k \<noteq> 0 \<Longrightarrow>
     Suc k = length (commands (events (snd (run s rc)))) \<and> k < 3 \<and>
     exit_status (fst (run s rc)) = 1"
  by (cases s rule: os_cases)
     (auto simp add: script_defs numeral_2_eq_2 less_Suc_eq split: if_splits)

text \<open>On Linux, with an install that succeeds and a build that exits with status 2.\<close>

theorem failing_step_aborts_run_witness:
  "1 < length (commands (events (snd (run ''Linux'' (exit_codes [0, 2]))))) \<and>
   exit_codes [0, 2] 1 \<noteq> 0 \<and>
   Suc 1 = length (commands (events (snd (run ''Linux'' (exit_codes [0, 2]))))) \<and>
   (1::nat) < 3 \<and> exit_status (fst (run ''Linux'' (exit_codes [0, 2]))) = 1"
proof -
  have h1: "1 < length (commands (events (snd (run ''Linux'' (exit_codes [0, 2])))))"
    by (simp add: script_defs exit_codes_def)
  have h2: "exit_codes [0, 2] 1 \<noteq> 0"
    by (simp add: exit_codes_def)
  from failing_step_aborts_run [OF h1 h2] h1 h2 show ?thesis by simp
qed

subsection \<open>Full success\<close>

text \<open>
  Claim C2. On a host where the install, build and launch commands exist (Windows, Linux
  or Darwin) and all three exit with status 0, the process ends with exit status 0, and
  the last thing the run does is to spawn the command that runs the built binary:
  \<^verbatim>\<open>./program\<close>, or \<^verbatim>\<open>./program.exe\<close> inside the MSYS2 shell on Windows.
\<close>

theorem all_steps_succeed:
  assumes "s = ''Windows'' \<or> s = ''Linux'' \<or> s = ''Darwin''"
    and "rc 0 = 0" and "rc 1 = 0" and "rc 2 = 0"
  shows "exit_status (fst (run s rc)) = 0 \<and>
    last (events (snd (run s rc))) =
      Subprocess (if s = ''Windows''
        then ''F:'' @ [CHR 0x5C] @ ''msys2'' @ [CHR 0x5C] @ ''ucrt64.exe -c '' @
          [CHR 0x22] @ ''./program.exe'' @ [CHR 0x22]
        else ''./program'')"
  using assms by (auto simp add: script_defs full_cmd_def numeral_2_eq_2)

theorem all_steps_succeed_witness:
  "exit_status (fst (run ''Darwin'' (exit_codes [0, 0, 0]))) = 0 \<and>
   last (events (snd (run ''Darwin'' (exit_codes [0, 0, 0])))) = Subprocess ''./program''"
proof -
  have h: "''Darwin'' = ''Windows'' \<or> ''Darwin'' = ''Linux'' \<or> ''Darwin'' = ''Darwin''"
    by simp
  have h0: "exit_codes [0, 0, 0] 0 = 0" and h1: "exit_codes [0, 0, 0] 1 = 0"
    and h2: "exit_codes [0, 0, 0] 2 = 0"
    by (simp_all add: exit_codes_def)
  from all_steps_succeed [OF h h0 h1 h2] show ?thesis by simp
qed

subsection \<open>The install command\<close>

text \<open>
  Claim C3. Whatever the world and the globals, \<^verbatim>\<open>install_sqlite\<close> spawns exactly one
  command on a supported host and it is the fixed one of that host: pacman (inside the
  MSYS2 shell) on Windows, apt on Linux, brew on Darwin, which is the identifier
  \<^verbatim>\<open>platform.system()\<close> gives on macOS. On any other host it spawns none.
\<close>

theorem install_runs_one_fixed_command:
  "commands (events (snd (install_sqlite g w))) =
     commands (events w) @
       (if host_system w = ''Windows'' then
          [msys2_path g @ '' -c '' @ [CHR 0x22] @
             ''pacman -S --needed mingw-w64-ucrt-x86_64-sqlite3'' @ [CHR 0x22]]
        else if host_system w = ''Linux'' then
          [''sudo apt update && sudo apt install -y libsqlite3-dev'']
        else if host_system w = ''Darwin'' then [''brew install sqlite'']
        else [])"
  by (simp add: install_sqlite_eq run_command_commands commands_append full_cmd_def)

subsection \<open>Unsupported hosts\<close>

text \<open>
  Claim C4. For an identifier other than Windows, Linux and Darwin the run prints the
  line \<^verbatim>\<open>Unsupported OS:\<close> with the identifier and nothing else, spawns no command
  at all and ends with exit status 1.
\<close>

theorem unsupported_os_exits:
  "s \<noteq> ''Windows'' \<Longrightarrow> s \<noteq> ''Linux'' \<Longrightarrow> s \<noteq> ''Darwin'' \<Longrightarrow>
   exit_status (fst (run s rc)) = 1 \<and> commands (events (snd (run s rc))) = [] \<and>
   printed (events (snd (run s rc))) = [''Unsupported OS: '' @ s]"
  by (simp add: script_defs)

theorem unsupported_os_exits_witness:
  "exit_status (fst (run ''FreeBSD'' (exit_codes []))) = 1 \<and>
   commands (events (snd (run ''FreeBSD'' (exit_codes [])))) = [] \<and>
   printed (events (snd (run ''FreeBSD'' (exit_codes [])))) = [''Unsupported OS: FreeBSD'']"
proof -
  have h1: "''FreeBSD'' \<noteq> ''Windows''" and h2: "''FreeBSD'' \<noteq> ''Linux''"
    and h3: "''FreeBSD'' \<noteq> ''Darwin''"
    by simp_all
  from unsupported_os_exits [OF h1 h2 h3] show ?thesis by simp
qed

subsection \<open>The commands on Linux and on Windows\<close>

text \<open>
  Claim C5. On Linux the commands of a run are, as far as the run gets, exactly
  \<^verbatim>\<open>sudo apt update && sudo apt install -y libsqlite3-dev\<close> for the install step,
  \<^verbatim>\<open>gcc program.c -o program -lsqlite3\<close> for the build step and \<^verbatim>\<open>./program\<close> for
  the launch step, each given to the shell as it stands, without the MSYS2 prefix.
\<close>

theorem linux_commands:
  "commands (events (snd (run ''Linux'' rc))) =
     (if rc 0 \<noteq> 0 then [''sudo apt update && sudo apt install -y libsqlite3-dev'']
      else if rc 1 \<noteq> 0 then
        [''sudo apt update && sudo apt install -y libsqlite3-dev'',
         ''gcc program.c -o program -lsqlite3'']
      else
        [''sudo apt update && sudo apt install -y libsqlite3-dev'',
         ''gcc program.c -o program -lsqlite3'', ''./program''])"
  by (simp add: script_defs full_cmd_def)

text \<open>
  Claim C6. On Windows every command of a run is the MSYS2 UCRT64 path, \<^verbatim>\<open>-c\<close> and
  the quoted command of the step, and the name of the output binary is \<^verbatim>\<open>program\<close>
  followed by the suffix \<^verbatim>\<open>.exe\<close>.
\<close>

theorem windows_commands_wrapped:
  "commands (events (snd (run ''Windows'' rc))) =
     map (\<lambda>cmd. ''F:'' @ [CHR 0x5C] @ ''msys2'' @ [CHR 0x5C] @ ''ucrt64.exe -c '' @
                   [CHR 0x22] @ cmd @ [CHR 0x22])
       (if rc 0 \<noteq> 0 then [''pacman -S --needed mingw-w64-ucrt-x86_64-sqlite3'']
        else if rc 1 \<noteq> 0 then
          [''pacman -S --needed mingw-w64-ucrt-x86_64-sqlite3'',
           ''gcc program.c -o program.exe -lsqlite3'']
        else
          [''pacman -S --needed mingw-w64-ucrt-x86_64-sqlite3'',
           ''gcc program.c -o program.exe -lsqlite3'', ''./program.exe'']) \<and>
   output_exe (fst (module_init (initial_world ''Windows'' rc))) = ''program'' @ ''.exe''"
  by (simp add: script_defs full_cmd_def)

subsection \<open>The diagnostic of a failing command\<close>

text \<open>
  Claim C7, as stated, asks for a diagnostic line that names the command actually
  executed. A failing install on Windows shows otherwise: the command executed is the
  MSYS2-wrapped one, the line printed after it names the bare pacman command.
\<close>

theorem diagnostic_names_unwrapped_command:
  "events (snd (run ''Windows'' (exit_codes [1]))) =
     [Platform ''Windows'', Platform ''Windows'',
      Print ''Detected Windows, using MSYS2 UCRT64'',
      Print (''Running: F:'' @ [CHR 0x5C] @ ''msys2'' @ [CHR 0x5C] @ ''ucrt64.exe -c '' @
        [CHR 0x22] @ ''pacman -S --needed mingw-w64-ucrt-x86_64-sqlite3'' @ [CHR 0x22]),
      Subprocess (''F:'' @ [CHR 0x5C] @ ''msys2'' @ [CHR 0x5C] @ ''ucrt64.exe -c '' @
        [CHR 0x22] @ ''pacman -S --needed mingw-w64-ucrt-x86_64-sqlite3'' @ [CHR 0x22]),
      Print ''Command failed: pacman -S --needed mingw-w64-ucrt-x86_64-sqlite3''] \<and>
   ''Command failed: pacman -S --needed mingw-w64-ucrt-x86_64-sqlite3'' \<noteq>
     ''Command failed: F:'' @ [CHR 0x5C] @ ''msys2'' @ [CHR 0x5C] @ ''ucrt64.exe -c '' @
        [CHR 0x22] @ ''pacman -S --needed mingw-w64-ucrt-x86_64-sqlite3'' @ [CHR 0x22]"
  by (simp add: script_defs full_cmd_def exit_codes_def)

text \<open>
  Claim C7, amended. When the subprocess of \<^verbatim>\<open>run_command\<close> exits with a status other
  than 0, the function prints \<^verbatim>\<open>Running:\<close> with the command executed, spawns that
  command once, prints \<^verbatim>\<open>Command failed:\<close> with the command text it was given (the
  command executed only when \<^verbatim>\<open>use_msys\<close> is false) and leaves with
  \<^verbatim>\<open>sys.exit(1)\<close>: nothing follows the diagnostic, and the command is not run again.
\<close>

theorem run_command_failure:
  "returncodes w (length (commands (events w))) \<noteq> 0 \<Longrightarrow>
   run_command g cmd use_msys w =
     (SystemExit 1,
      w\<lparr>events := events w @
         [Print (''Running: '' @ full_cmd g cmd use_msys), Subprocess (full_cmd g cmd use_msys),
          Print (''Command failed: '' @ cmd)]\<rparr>)"
  by (simp add: run_command_eq)

theorem run_command_failure_witness:
  "run_command \<lparr>c_program = ''program.c'', output_exe = ''program'', msys2_path = ''sh''\<rparr>
      ''make'' True (initial_world ''Linux'' (exit_codes [3])) =
     (SystemExit 1,
      \<lparr>host_system = ''Linux'', returncodes = exit_codes [3], events =
         [Print (''Running: sh -c '' @ [CHR 0x22] @ ''make'' @ [CHR 0x22]),
          Subprocess (''sh -c '' @ [CHR 0x22] @ ''make'' @ [CHR 0x22]),
          Print ''Command failed: make'']\<rparr>)"
proof -
  have h: "returncodes (initial_world ''Linux'' (exit_codes [3]))
      (length (commands (events (initial_world ''Linux'' (exit_codes [3]))))) \<noteq> 0"
    by (simp add: initial_world_def exit_codes_def)
  from run_command_failure [OF h] show ?thesis
    by (simp add: initial_world_def full_cmd_def)
qed

subsection \<open>Reads of the identifier, and the binary name\<close>



text \<open>
  Claim C9. In any world and for any globals, the name after \<^verbatim>\<open>-o\<close> in the command
  of \<^verbatim>\<open>build_program\<close> and the name after \<^verbatim>\<open>./\<close> in the command of
  \<^verbatim>\<open>launch_program\<close> are both the global \<^verbatim>\<open>output_exe\<close>. In a run, whatever the
  identifier, the commands after the install command are, as far as the run gets, the
  build and the launch of the one name chosen at module level.
\<close>

theorem built_binary_is_launched:
  "commands (events (snd (build_program g w))) =
     commands (events w) @
       [full_cmd g (''gcc '' @ c_program g @ '' -o '' @ output_exe g @ '' -lsqlite3'')
          (host_system w = ''Windows'')] \<and>
   commands (events (snd (launch_program g w))) =
     commands (events w) @ [full_cmd g (''./'' @ output_exe g) (host_system w = ''Windows'')] \<and>
   drop 1 (commands (events (snd (run s rc)))) =
     take (length (commands (events (snd (run s rc)))) - 1)
       [full_cmd (fst (module_init (initial_world s rc)))
          (''gcc program.c -o '' @ output_exe (fst (module_init (initial_world s rc))) @
             '' -lsqlite3'')
          (s = ''Windows''),
        full_cmd (fst (module_init (initial_world s rc)))
          (''./'' @ output_exe (fst (module_init (initial_world s rc)))) (s = ''Windows'')]"
proof -
  have "drop 1 (commands (events (snd (run s rc)))) =
     take (length (commands (events (snd (run s rc)))) - 1)
       [full_cmd (fst (module_init (initial_world s rc)))
          (''gcc program.c -o '' @ output_exe (fst (module_init (initial_world s rc))) @
             '' -lsqlite3'')
          (s = ''Windows''),
        full_cmd (fst (module_init (initial_world s rc)))
          (''./'' @ output_exe (fst (module_init (initial_world s rc)))) (s = ''Windows'')]"
    by (cases s rule: os_cases) (simp_all add: script_defs full_cmd_def)
  then show ?thesis
    by (simp add: build_program_eq launch_program_eq run_command_commands commands_append)
qed

end
